theory Spec2Isabelle
  imports Main
begin

section \<open>JavaScript numbers: the binary64 arithmetic used by \<open>computeStats\<close>\<close>

text \<open>
  \<open>computeStats\<close> evaluates \<^verbatim>\<open>Math.round((completedTasks / totalTasks) * 100)\<close>.
  Both operands of the division are array lengths (integers below \<open>2^32\<close>, exactly
  representable), the division and the multiplication are IEEE 754 binary64 operations with
  round-to-nearest, ties-to-even, and \<^verbatim>\<open>Math.round\<close> is the exact \<open>floor (x + 1/2)\<close>.

  A finite non-negative binary64 value is written as a pair \<open>(m, e)\<close> that stands for
  \<open>m * 2^e\<close>. The rounding of a positive rational \<open>(a / b) * 2^e\<close> first brings \<open>a / b\<close>
  into \<open>[2^52, 2^53)\<close> by powers of two (the 53-bit significand) and then rounds it to an
  integer. Quotients of array lengths and their products with 100 lie between \<open>2^-32\<close> and
  100, far from the subnormal and the overflow range, so the exponent needs no bound.
\<close>

type_synonym binary64 = "nat \<times> int"

function scale_down :: "nat \<Rightarrow> nat \<Rightarrow> int \<Rightarrow> nat \<times> nat \<times> int" where
  "scale_down a b e =
     (if 0 < b \<and> 2 ^ 53 * b \<le> a then scale_down a (2 * b) (e + 1) else (a, b, e))"
  by pat_completeness auto
termination
  by (relation "measure (\<lambda>(a, b, e). a - b)") auto

function scale_up :: "nat \<Rightarrow> nat \<Rightarrow> int \<Rightarrow> nat \<times> nat \<times> int" where
  "scale_up a b e =
     (if 0 < a \<and> a < 2 ^ 52 * b then scale_up (2 * a) b (e - 1) else (a, b, e))"
  by pat_completeness auto
termination
  by (relation "measure (\<lambda>(a, b, e). 2 ^ 52 * b - a)") auto

declare scale_down.simps [simp del]
declare scale_up.simps [simp del]

definition round_ties_even :: "nat \<Rightarrow> nat \<Rightarrow> nat" where
  \<comment> \<open>the integer nearest to \<open>a / b\<close>, the even one of the two at a tie\<close>
  "round_ties_even a b =
     (let m = a div b; r = a mod b
      in if 2 * r < b then m
         else if b < 2 * r then m + 1
         else if even m then m else m + 1)"

definition fl :: "nat \<Rightarrow> nat \<Rightarrow> int \<Rightarrow> binary64" where
  \<comment> \<open>the binary64 value nearest to \<open>(a / b) * 2^e\<close>\<close>
  "fl a b e =
     (case scale_down a b e of (a1, b1, e1) \<Rightarrow>
        case scale_up a1 b1 e1 of (a2, b2, e2) \<Rightarrow> (round_ties_even a2 b2, e2))"

definition js_div :: "nat \<Rightarrow> nat \<Rightarrow> binary64" where
  \<comment> \<open>\<^verbatim>\<open>c / t\<close> on two integers, \<open>t\<close> not zero\<close>
  "js_div c t = fl c t 0"

definition js_mul :: "binary64 \<Rightarrow> binary64 \<Rightarrow> binary64" where
  "js_mul x y = (case x of (m1, e1) \<Rightarrow> case y of (m2, e2) \<Rightarrow> fl (m1 * m2) 1 (e1 + e2))"

definition js_of_nat :: "nat \<Rightarrow> binary64" where
  \<comment> \<open>an integer literal below \<open>2^53\<close>\<close>
  "js_of_nat n = (n, 0)"

definition Math_round :: "binary64 \<Rightarrow> int" where
  \<comment> \<open>\<^verbatim>\<open>Math.round\<close>: \<open>floor (x + 1/2)\<close>, computed exactly\<close>
  "Math_round x =
     (case x of (m, e) \<Rightarrow>
        if 0 \<le> e then int m * 2 ^ nat e
        else (2 * int m + 2 ^ nat (- e)) div (2 * 2 ^ nat (- e)))"

section \<open>Documents\<close>

text \<open>
  Modelled from the spec: the Mongoose schemas \<^verbatim>\<open>models/Project\<close>, \<^verbatim>\<open>models/Task\<close> and
  \<^verbatim>\<open>models/User\<close>, which \<^verbatim>\<open>app.js\<close> requires and which are not among the sources. The
  fields and their types are the ones of the data model: a project has a title, an
  optional description and an integer progress (default 0); a task has a title, a boolean
  \<open>completed\<close> (default false) and the id of its project; a user has a name, an email and
  a password hash. An \<^verbatim>\<open>_id\<close> is the text of an ObjectId. A collection is the list of its
  documents in their natural order, the order in which \<^verbatim>\<open>find()\<close> returns them.
\<close>

type_synonym oid = string

record project =
  project_id :: oid
  title :: string
  description :: "string option"
  progress :: int

record task =
  task_id :: oid
  task_title :: string
  completed :: bool
  projectId :: oid

record user =
  user_id :: oid
  name :: string
  email :: string
  passwordHash :: string

section \<open>The stats aggregator\<close>

record formatted_project =
  fp_id :: oid
  fp_name :: string
  fp_description :: "string option"
  fp_progress :: int

record stats =
  totalProjects :: nat
  totalTasks :: nat
  overallCompletion :: int
  projects :: "formatted_project list"

definition or_zero :: "int \<Rightarrow> int" where
  \<comment> \<open>\<^verbatim>\<open>x || 0\<close> on a number: the only falsy integer is 0\<close>
  "or_zero x = (if x \<noteq> 0 then x else 0)"

definition format_project :: "project \<Rightarrow> formatted_project" where
  "format_project p =
     \<lparr>fp_id = project_id p, fp_name = title p, fp_description = description p,
      fp_progress = or_zero (progress p)\<rparr>"

definition completion :: "nat \<Rightarrow> nat \<Rightarrow> int" where
  \<comment> \<open>\<^verbatim>\<open>Math.round((completedTasks / totalTasks) * 100)\<close>\<close>
  "completion completedTasks taskCount =
     Math_round (js_mul (js_div completedTasks taskCount) (js_of_nat 100))"

definition computeStats :: "project list \<Rightarrow> task list \<Rightarrow> stats" where
  "computeStats ps ts =
     \<lparr>totalProjects = length ps,
      totalTasks = length ts,
      overallCompletion =
        (if length ts > 0 then completion (length (filter completed ts)) (length ts) else 0),
      projects = map format_project ps\<rparr>"

text \<open>The aggregator of the specification: round-half-up of the exact quotient.\<close>

definition round_half_up :: "nat \<Rightarrow> nat \<Rightarrow> int" where
  \<comment> \<open>\<open>floor (a / b + 1/2)\<close> for \<open>b > 0\<close>\<close>
  "round_half_up a b = int ((2 * a + b) div (2 * b))"

definition spec_overallCompletion :: "task list \<Rightarrow> int" where
  "spec_overallCompletion ts =
     (if length ts = 0 then 0
      else round_half_up (100 * length (filter completed ts)) (length ts))"

section \<open>Requests, responses and the state of the server\<close>

text \<open>
  The forms send text fields. A body field is \<open>None\<close> when the request does not carry it
  (\<^verbatim>\<open>undefined\<close>) and a string otherwise; the falsy values are \<^verbatim>\<open>undefined\<close> and the empty
  string.
\<close>

type_synonym field = "string option"

definition truthy :: "field \<Rightarrow> bool" where
  "truthy f = (case f of None \<Rightarrow> False | Some s \<Rightarrow> s \<noteq> [])"

definition js_or :: "field \<Rightarrow> field \<Rightarrow> field" where
  \<comment> \<open>\<^verbatim>\<open>a || b\<close>\<close>
  "js_or a b = (if truthy a then a else b)"

datatype js_error =
    JsError string       \<comment> \<open>\<^verbatim>\<open>new Error(message)\<close>\<close>
  | TypeError string     \<comment> \<open>a property of \<^verbatim>\<open>null\<close> is read: the name of the property\<close>
  | CastError string     \<comment> \<open>Mongoose, in a query: the text does not cast to an ObjectId\<close>
  | ValidationError string
                         \<comment> \<open>Mongoose, in \<^verbatim>\<open>create\<close>: the value of a path fails its cast\<close>

datatype response =
    Render string "string option" "string option"
      \<comment> \<open>\<^verbatim>\<open>res.render(view, {layout, error})\<close>, HTTP 200: view, layout, inline error\<close>
  | Redirect string
      \<comment> \<open>\<^verbatim>\<open>res.redirect(location)\<close>\<close>
  | CookieRedirect string string
      \<comment> \<open>\<^verbatim>\<open>res.cookie("token", token, ...)\<close> and \<^verbatim>\<open>res.redirect(location)\<close>: token, location\<close>
  | ServerError js_error
      \<comment> \<open>\<^verbatim>\<open>next(err)\<close>, answered by the error handler: \<^verbatim>\<open>res.status(500).render("error", {error: err})\<close>\<close>

datatype message =
    InfoMessage string   \<comment> \<open>\<^verbatim>\<open>{type: "info", message}\<close>\<close>
  | StatsMessage stats   \<comment> \<open>\<^verbatim>\<open>{type: "stats", data}\<close>\<close>

record client =
  readyState :: nat
  sent :: "message list"

datatype store_op =
    User_findOne field
  | User_create string
  | Project_find
  | Project_create string
  | Task_find
  | Task_findById oid
  | Task_create string oid
  | Task_save oid

text \<open>
  The state a handler runs in: the three collections in their natural order, the set
  \<^verbatim>\<open>wss.clients\<close> in insertion order, and the store calls issued so far.
\<close>

record world =
  db_users :: "user list"
  db_projects :: "project list"
  db_tasks :: "task list"
  wss_clients :: "client list"
  db_log :: "store_op list"

definition issue :: "store_op list \<Rightarrow> world \<Rightarrow> world" where
  "issue ops w = w\<lparr>db_log := db_log w @ ops\<rparr>"

section \<open>Broadcast\<close>

definition deliver :: "message \<Rightarrow> client \<Rightarrow> client" where
  \<comment> \<open>\<^verbatim>\<open>if (client.readyState === 1) client.send(message)\<close>\<close>
  "deliver m c = (if readyState c = 1 then c\<lparr>sent := sent c @ [m]\<rparr> else c)"

definition broadcastStats :: "world \<Rightarrow> world" where
  "broadcastStats w =
     (let w1 = issue [Project_find, Task_find] w;
          message = StatsMessage (computeStats (db_projects w1) (db_tasks w1))
      in w1\<lparr>wss_clients := map (deliver message) (wss_clients w1)\<rparr>)"

text \<open>
  What a broadcast between the states \<open>w\<close> and \<open>w'\<close> amounts to: one snapshot, computed from
  the stores of \<open>w'\<close>, is appended to what was sent to each connection of \<open>w\<close> in the
  open state, and the other connections are as they were.
\<close>

definition snapshot_sent :: "world \<Rightarrow> world \<Rightarrow> bool" where
  "snapshot_sent w w' \<longleftrightarrow>
     wss_clients w' =
       map (\<lambda>c. if readyState c = 1
                 then c\<lparr>sent := sent c @
                        [StatsMessage (computeStats (db_projects w') (db_tasks w'))]\<rparr>
                 else c)
           (wss_clients w)"

section \<open>Route handlers\<close>

text \<open>
  Every handler maps the request and the state to the response and the new state; it runs
  from its first statement to its response without another request in between. The
  protected handlers are the functions behind \<^verbatim>\<open>requireAuth\<close>, as they run once the guard
  has let the request through. What the process takes from outside is a parameter:
  \<open>hash\<close> is \<^verbatim>\<open>bcrypt.hash(_, 10)\<close>, \<open>compare\<close> is \<^verbatim>\<open>bcrypt.compare\<close> (it may reject),
  \<open>sign\<close> is \<^verbatim>\<open>jwt.sign\<close> on the id and the email, \<open>cast\<close> is the cast of a text to
  an ObjectId (\<open>None\<close> when the text is not one; two texts may cast to the same id),
  \<open>new_id\<close> is the \<^verbatim>\<open>_id\<close> the driver gives to a created document, and
  \<open>no_email\<close> is what \<^verbatim>\<open>User.findOne\<close> answers to a filter whose email is
  \<^verbatim>\<open>undefined\<close> (no document or some document, by the version of the library).
\<close>

record register_body =
  reg_name :: field
  reg_email :: field
  reg_password :: field
  reg_confirmPassword :: field

definition render_register :: "string \<Rightarrow> response" where
  "render_register msg = Render ''register'' (Some ''auth-layout'') (Some msg)"

definition post_register ::
  "(string \<Rightarrow> string) \<Rightarrow> (oid \<Rightarrow> string \<Rightarrow> string) \<Rightarrow> oid \<Rightarrow> register_body \<Rightarrow> world
     \<Rightarrow> response \<times> world" where
  "post_register hash sign new_id body w =
     (if \<not> truthy (reg_name body) \<or> \<not> truthy (reg_email body) \<or> \<not> truthy (reg_password body)
      then (render_register ''All fields are required.'', w)
      else if reg_password body \<noteq> reg_confirmPassword body
      then (render_register ''Passwords do not match.'', w)
      else
        (case (reg_name body, reg_email body, reg_password body) of
           (Some n, Some e, Some p) \<Rightarrow>
             (let w1 = issue [User_findOne (Some e)] w
              in case find (\<lambda>u. email u = e) (db_users w1) of
                   Some existing \<Rightarrow> (render_register ''Email already registered.'', w1)
                 | None \<Rightarrow>
                     (let u = \<lparr>user_id = new_id, name = n, email = e, passwordHash = hash p\<rparr>;
                          w2 = issue [User_create e] (w1\<lparr>db_users := db_users w1 @ [u]\<rparr>)
                      in (CookieRedirect (sign (user_id u) (email u)) ''/'', w2)))
         | _ \<Rightarrow> (render_register ''All fields are required.'', w)))"

record login_body =
  login_email :: field
  login_password :: field

definition render_login :: "string \<Rightarrow> response" where
  "render_login msg = Render ''login'' (Some ''auth-layout'') (Some msg)"

definition findOne_by_email ::
  "(user list \<Rightarrow> user option) \<Rightarrow> field \<Rightarrow> user list \<Rightarrow> user option" where
  \<comment> \<open>\<^verbatim>\<open>User.findOne({ email })\<close>: the first user with that email\<close>
  "findOne_by_email no_email f us =
     (case f of None \<Rightarrow> no_email us | Some e \<Rightarrow> find (\<lambda>u. email u = e) us)"

definition post_login ::
  "(user list \<Rightarrow> user option) \<Rightarrow> (field \<Rightarrow> string \<Rightarrow> js_error + bool)
     \<Rightarrow> (oid \<Rightarrow> string \<Rightarrow> string) \<Rightarrow> login_body \<Rightarrow> world \<Rightarrow> response \<times> world" where
  "post_login no_email compare sign body w =
     (let w1 = issue [User_findOne (login_email body)] w
      in case findOne_by_email no_email (login_email body) (db_users w1) of
           None \<Rightarrow> (render_login ''Invalid email or password.'', w1)
         | Some u \<Rightarrow>
             (case compare (login_password body) (passwordHash u) of
                Inl err \<Rightarrow> (ServerError err, w1)
              | Inr ok \<Rightarrow>
                  if \<not> ok then (render_login ''Invalid email or password.'', w1)
                  else (CookieRedirect (sign (user_id u) (email u)) ''/'', w1)))"

record project_body =
  body_title :: field
  body_name :: field
  body_description :: field

definition post_projects :: "oid \<Rightarrow> project_body \<Rightarrow> world \<Rightarrow> response \<times> world" where
  "post_projects new_id body w =
     (case js_or (body_title body) (body_name body) of
        None \<Rightarrow> (Render ''new-project'' None (Some ''Project name is required.''), w)
      | Some t \<Rightarrow>
          if t = [] then (Render ''new-project'' None (Some ''Project name is required.''), w)
          else
            (let p = \<lparr>project_id = new_id, title = t,
                      description = body_description body, progress = 0\<rparr>;
                 w1 = issue [Project_create t] (w\<lparr>db_projects := db_projects w @ [p]\<rparr>);
                 w2 = broadcastStats w1
             in (Redirect ''/projects'', w2)))"

definition post_project_tasks ::
  "(string \<Rightarrow> oid option) \<Rightarrow> oid \<Rightarrow> string \<Rightarrow> field \<Rightarrow> world \<Rightarrow> response \<times> world" where
  \<comment> \<open>\<open>param\<close> is \<^verbatim>\<open>req.params.id\<close>, \<open>f\<close> is \<^verbatim>\<open>req.body.title\<close>; \<^verbatim>\<open>Task.create\<close> casts
      the project id before it inserts, and the schema gives the created task its default
      \<open>completed = False\<close>\<close>
  "post_project_tasks cast new_id param f w =
     (case f of
        None \<Rightarrow> (ServerError (JsError ''Task title required''), w)
      | Some t \<Rightarrow>
          if t = [] then (ServerError (JsError ''Task title required''), w)
          else
            (case cast param of
               None \<Rightarrow> (ServerError (ValidationError param), w)
             | Some pid \<Rightarrow>
                 (let d = \<lparr>task_id = new_id, task_title = t, completed = False,
                           projectId = pid\<rparr>;
                      w1 = issue [Task_create t pid] (w\<lparr>db_tasks := db_tasks w @ [d]\<rparr>);
                      w2 = broadcastStats w1
                  in (Redirect (''/projects/'' @ param), w2))))"

fun set_completed :: "oid \<Rightarrow> bool \<Rightarrow> task list \<Rightarrow> task list" where
  \<comment> \<open>\<^verbatim>\<open>task.save()\<close> after the assignment: sets \<open>completed\<close> on the document of that id\<close>
  "set_completed i v [] = []"
| "set_completed i v (t # ts) =
     (if task_id t = i then t\<lparr>completed := v\<rparr> # ts else t # set_completed i v ts)"

definition post_tasks_toggle ::
  "(string \<Rightarrow> oid option) \<Rightarrow> string \<Rightarrow> world \<Rightarrow> response \<times> world" where
  \<comment> \<open>\<open>param\<close> is \<^verbatim>\<open>req.params.id\<close>. \<^verbatim>\<open>Task.findById\<close> casts it and rejects when the cast
      fails; it resolves to \<^verbatim>\<open>null\<close> when no task has the id, and the next statement
      reads \<^verbatim>\<open>task.completed\<close> with no check in between\<close>
  "post_tasks_toggle cast param w =
     (case cast param of
        None \<Rightarrow> (ServerError (CastError param), w)
      | Some i \<Rightarrow>
          (let w1 = issue [Task_findById i] w
           in case find (\<lambda>t. task_id t = i) (db_tasks w1) of
                None \<Rightarrow> (ServerError (TypeError ''completed''), w1)
              | Some t \<Rightarrow>
                  (let w2 = issue [Task_save (task_id t)]
                              (w1\<lparr>db_tasks :=
                                    set_completed (task_id t) (\<not> completed t) (db_tasks w1)\<rparr>);
                       w3 = broadcastStats w2
                   in (Redirect ''back'', w3))))"

section \<open>Outcomes and an example state\<close>

fun is_inline_render :: "response \<Rightarrow> bool" where
  \<comment> \<open>a view rendered with an inline error message\<close>
  "is_inline_render (Render view layout (Some msg)) = True"
| "is_inline_render _ = False"

fun is_server_error :: "response \<Rightarrow> bool" where
  \<comment> \<open>the generic error view of the error handler\<close>
  "is_server_error (ServerError err) = True"
| "is_server_error _ = False"


definition cast_any :: "string \<Rightarrow> oid option" where
  \<comment> \<open>a cast that takes every text as the id it spells\<close>
  "cast_any s = Some s"

definition example_hash :: "string \<Rightarrow> string" where
  "example_hash p = ''$2a$10$'' @ p"

definition example_compare :: "field \<Rightarrow> string \<Rightarrow> js_error + bool" where
  "example_compare f h =
     (case f of None \<Rightarrow> Inl (JsError ''Illegal arguments: undefined, string'')
      | Some p \<Rightarrow> Inr (example_hash p = h))"

definition first_user :: "user list \<Rightarrow> user option" where
  \<comment> \<open>a library that drops the \<^verbatim>\<open>undefined\<close> key: the filter matches every document\<close>
  "first_user us = (case us of [] \<Rightarrow> None | u # _ \<Rightarrow> Some u)"

definition example_sign :: "oid \<Rightarrow> string \<Rightarrow> string" where
  "example_sign i e = i @ ''.'' @ e"

definition project_site :: project where
  "project_site = \<lparr>project_id = ''p1'', title = ''Site'', description = None, progress = 40\<rparr>"

definition task_write :: task where
  "task_write =
     \<lparr>task_id = ''t1'', task_title = ''write'', completed = False, projectId = ''p1''\<rparr>"

definition task_test :: task where
  "task_test =
     \<lparr>task_id = ''t2'', task_title = ''test'', completed = True, projectId = ''p1''\<rparr>"

definition example_world :: world where
  "example_world =
     \<lparr>db_users =
        [\<lparr>user_id = ''u1'', name = ''Ada'', email = ''ada@example.com'',
          passwordHash = example_hash ''secret''\<rparr>],
      db_projects = [project_site],
      db_tasks = [task_write, task_test],
      wss_clients = [\<lparr>readyState = 1, sent = []\<rparr>, \<lparr>readyState = 3, sent = []\<rparr>],
      db_log = []\<rparr>"

definition dup_body :: register_body where
  "dup_body =
     \<lparr>reg_name = Some ''Eve'', reg_email = Some ''ada@example.com'',
      reg_password = Some ''pw'', reg_confirmPassword = Some ''pw''\<rparr>"

definition mismatch_body :: register_body where
  "mismatch_body =
     \<lparr>reg_name = Some ''Eve'', reg_email = Some ''eve@example.com'',
      reg_password = Some ''pw'', reg_confirmPassword = Some ''pv''\<rparr>"

definition unknown_login :: login_body where
  "unknown_login =
     \<lparr>login_email = Some ''bob@example.com'', login_password = Some ''secret''\<rparr>"

definition wrong_password_login :: login_body where
  "wrong_password_login =
     \<lparr>login_email = Some ''ada@example.com'', login_password = Some ''guess''\<rparr>"

definition no_title_body :: project_body where
  "no_title_body = \<lparr>body_title = None, body_name = Some [], body_description = Some ''d''\<rparr>"

definition site_body :: project_body where
  "site_body = \<lparr>body_title = None, body_name = Some ''Shop'', body_description = None\<rparr>"

section \<open>The stats aggregator: overall completion\<close>

text \<open>
  The rounding is the one of the format. For a positive quotient \<open>a / b\<close>, \<open>fl a b e\<close>
  returns a significand between \<open>2^52\<close> and \<open>2^53\<close> whose value differs from
  \<open>(a / b) * 2^e\<close> by at most half a unit of its last place: with \<open>j\<close> doublings of the
  numerator and \<open>k\<close> of the denominator, the new exponent is \<open>e + k - j\<close> and the
  significand \<open>m\<close> satisfies \<open>|m - (a * 2^j) / (b * 2^k)| \<le> 1/2\<close>.
\<close>

lemma scale_down_props:
  "scale_down a b e = (a', b', e') \<Longrightarrow> 0 < b \<Longrightarrow>
   a' = a \<and> e \<le> e' \<and> b' = b * 2 ^ nat (e' - e) \<and> a' < 2 ^ 53 * b'"
proof (induction a b e rule: scale_down.induct)
  case (1 a b e)
  show ?case
  proof (cases "2 ^ 53 * b \<le> a")
    case True
    with "1.prems" have eq: "scale_down a (2 * b) (e + 1) = (a', b', e')"
      by (simp add: scale_down.simps [of a b e])
    have "a' = a \<and> e + 1 \<le> e' \<and> b' = (2 * b) * 2 ^ nat (e' - (e + 1)) \<and> a' < 2 ^ 53 * b'"
      using "1.IH" [OF _ eq] True "1.prems"(2) by simp
    moreover from this have "e + 1 \<le> e'" by simp
    then have "nat (e' - e) = Suc (nat (e' - (e + 1)))" by arith
    ultimately show ?thesis by simp
  next
    case False
    with "1.prems" show ?thesis
      by (simp add: scale_down.simps [of a b e])
  qed
qed

lemma scale_up_props:
  "scale_up a b e = (a', b', e') \<Longrightarrow> 0 < a \<Longrightarrow> a < 2 ^ 53 * b \<Longrightarrow>
   b' = b \<and> e' \<le> e \<and> a' = a * 2 ^ nat (e - e') \<and> 2 ^ 52 * b' \<le> a' \<and> a' < 2 ^ 53 * b'"
proof (induction a b e rule: scale_up.induct)
  case (1 a b e)
  show ?case
  proof (cases "a < 2 ^ 52 * b")
    case True
    with "1.prems" have eq: "scale_up (2 * a) b (e - 1) = (a', b', e')"
      by (simp add: scale_up.simps [of a b e])
    have "b' = b \<and> e' \<le> e - 1 \<and> a' = (2 * a) * 2 ^ nat (e - 1 - e')
        \<and> 2 ^ 52 * b' \<le> a' \<and> a' < 2 ^ 53 * b'"
      using "1.IH" [OF _ eq] True "1.prems"(2) by simp
    moreover from this have "e' \<le> e - 1" by simp
    then have "nat (e - e') = Suc (nat (e - 1 - e'))" by arith
    ultimately show ?thesis by simp
  next
    case False
    with "1.prems" show ?thesis
      by (simp add: scale_up.simps [of a b e])
  qed
qed

lemma round_ties_even_nearest:
  assumes "0 < b"
  shows "2 * (round_ties_even a b * b) \<le> 2 * a + b \<and> 2 * a \<le> 2 * (round_ties_even a b * b) + b"
proof -
  have d: "a = (a div b) * b + a mod b" by simp
  have r: "a mod b < b" using assms by simp
  define m where "m = a div b"
  define r where "r = a mod b"
  have a: "a = m * b + r" and rb: "r < b" using d r by (simp_all add: m_def r_def)
  have "round_ties_even a b = (if 2 * r < b then m else if b < 2 * r then m + 1
         else if even m then m else m + 1)"
    by (simp add: round_ties_even_def Let_def m_def r_def)
  then show ?thesis
    using a rb by (auto simp: algebra_simps)
qed

lemma fl_nearest:
  assumes "0 < a" and "0 < b" and "fl a b e = (m, e')"
  shows "2 ^ 52 \<le> m \<and> m \<le> 2 ^ 53
       \<and> (\<exists>j k. e' = e + int k - int j
            \<and> 2 * (m * (b * 2 ^ k)) \<le> 2 * (a * 2 ^ j) + b * 2 ^ k
            \<and> 2 * (a * 2 ^ j) \<le> 2 * (m * (b * 2 ^ k)) + b * 2 ^ k)"
proof -
  obtain a1 b1 e1 where d: "scale_down a b e = (a1, b1, e1)"
    by (cases "scale_down a b e") auto
  obtain a2 b2 e2 where u: "scale_up a1 b1 e1 = (a2, b2, e2)"
    by (cases "scale_up a1 b1 e1") auto
  from scale_down_props [OF d assms(2)]
  have dp: "a1 = a" "e \<le> e1" "b1 = b * 2 ^ nat (e1 - e)" "a1 < 2 ^ 53 * b1" by simp_all
  from scale_up_props [OF u] dp assms(1)
  have up: "b2 = b1" "e2 \<le> e1" "a2 = a1 * 2 ^ nat (e1 - e2)" "2 ^ 52 * b2 \<le> a2"
    "a2 < 2 ^ 53 * b2" by simp_all
  have b2: "0 < b2" using up(1) dp(3) assms(2) by simp
  have m: "m = round_ties_even a2 b2" and e': "e' = e2"
    using assms(3) d u by (simp_all add: fl_def)
  have n: "2 * (m * b2) \<le> 2 * a2 + b2" "2 * a2 \<le> 2 * (m * b2) + b2"
    using round_ties_even_nearest [OF b2, of a2] by (simp_all add: m)
  have lo: "2 ^ 52 \<le> m"
  proof (rule ccontr)
    assume "\<not> 2 ^ 52 \<le> m"
    then have "m + 1 \<le> 2 ^ 52" by simp
    then have "(m + 1) * b2 \<le> 2 ^ 52 * b2" by (rule mult_le_mono1)
    also have "\<dots> \<le> a2" by (rule up(4))
    finally have "m * b2 + b2 \<le> a2" by (simp add: add_mult_distrib)
    with n(2) b2 show False by linarith
  qed
  have hi: "m \<le> 2 ^ 53"
  proof (rule ccontr)
    assume "\<not> m \<le> 2 ^ 53"
    then have "2 ^ 53 + 1 \<le> m" by simp
    then have "(2 ^ 53 + 1) * b2 \<le> m * b2" by (rule mult_le_mono1)
    then have "2 ^ 53 * b2 + b2 \<le> m * b2" by (simp add: add_mult_distrib)
    with up(5) n(1) b2 show False by linarith
  qed
  have "e' = e + int (nat (e1 - e)) - int (nat (e1 - e2))"
    using e' dp(2) up(2) by simp
  moreover have "2 * (m * (b * 2 ^ nat (e1 - e))) \<le> 2 * (a * 2 ^ nat (e1 - e2)) + b * 2 ^ nat (e1 - e)"
    using n(1) unfolding up(1,3) dp(1,3) by simp
  moreover have "2 * (a * 2 ^ nat (e1 - e2)) \<le> 2 * (m * (b * 2 ^ nat (e1 - e))) + b * 2 ^ nat (e1 - e)"
    using n(2) unfolding up(1,3) dp(1,3) by simp
  ultimately show ?thesis using lo hi by blast
qed

lemmas binary64_eval =
  completion_def js_mul_def js_div_def js_of_nat_def fl_def Math_round_def
  round_ties_even_def scale_up.simps scale_down.simps

lemma js_div_23_40: "js_div 23 40 = (5179139571476070, - 53)"
  by (simp add: binary64_eval)

lemma js_mul_23_40_100: "js_mul (js_div 23 40) (js_of_nat 100) = (8092405580431359, - 47)"
  by (simp add: binary64_eval)

lemma completion_23_of_40: "completion 23 40 = 57"
  by (simp add: binary64_eval)

lemma completion_1_of_3: "completion 1 3 = 33"
  by (simp add: binary64_eval)

lemma computeStats_no_tasks:
  "overallCompletion (computeStats ps []) = 0 \<and> spec_overallCompletion [] = 0"
  by (simp add: computeStats_def spec_overallCompletion_def)

text \<open>
  C1. The overall completion is meant to be the round-half-up of
  \<open>100 * completed / total\<close>. With 23 of 40 tasks completed the exact percentage is 57.5,
  whose round-half-up is 58; the code divides first, \<open>23 / 40\<close> is not a binary64 value,
  the product with 100 is \<open>57.49999999999999\<close>, and \<^verbatim>\<open>Math.round\<close> returns 57.
\<close>

theorem computeStats_overallCompletion_23_of_40:
  "overallCompletion (computeStats []
      (replicate 23 \<lparr>task_id = ''a'', task_title = ''x'', completed = True, projectId = ''p''\<rparr> @
       replicate 17 \<lparr>task_id = ''b'', task_title = ''y'', completed = False, projectId = ''p''\<rparr>))
     = 57
   \<and> spec_overallCompletion
      (replicate 23 \<lparr>task_id = ''a'', task_title = ''x'', completed = True, projectId = ''p''\<rparr> @
       replicate 17 \<lparr>task_id = ''b'', task_title = ''y'', completed = False, projectId = ''p''\<rparr>)
     = 58"
  by (simp add: computeStats_def spec_overallCompletion_def round_half_up_def
      completion_23_of_40)

section \<open>Toggling the completion of a task\<close>


lemma toggle_uncastable:
  "cast param = None \<Longrightarrow> post_tasks_toggle cast param w = (ServerError (CastError param), w)"
  by (simp add: post_tasks_toggle_def)



lemma find_task_id: "find (\<lambda>t. task_id t = i) ts = Some t \<Longrightarrow> task_id t = i"
  by (induction ts) (auto split: if_splits)

lemma find_set_completed:
  "find (\<lambda>t. task_id t = i) ts = Some t \<Longrightarrow>
   find (\<lambda>t. task_id t = i) (set_completed i v ts) = Some (t\<lparr>completed := v\<rparr>)"
  by (induction ts) (auto split: if_splits)

lemma set_completed_twice:
  "find (\<lambda>t. task_id t = i) ts = Some t \<Longrightarrow>
   set_completed i (completed t) (set_completed i v ts) = ts"
  by (induction ts) (auto split: if_splits)

lemma set_completed_update:
  "find (\<lambda>t. task_id t = i) ts = Some t \<Longrightarrow>
   \<exists>k < length ts. ts ! k = t \<and> (\<forall>j < k. task_id (ts ! j) \<noteq> i)
      \<and> set_completed i v ts = ts[k := t\<lparr>completed := v\<rparr>]"
proof (induction ts)
  case Nil
  then show ?case by simp
next
  case (Cons a ts)
  show ?case
  proof (cases "task_id a = i")
    case True
    with Cons.prems have "a = t" by simp
    with True show ?thesis by (intro exI [of _ 0]) simp
  next
    case False
    with Cons.prems have "find (\<lambda>t. task_id t = i) ts = Some t" by simp
    from Cons.IH [OF this] obtain k where k: "k < length ts" "ts ! k = t"
      "\<forall>j < k. task_id (ts ! j) \<noteq> i" "set_completed i v ts = ts[k := t\<lparr>completed := v\<rparr>]"
      by blast
    have "\<forall>j < Suc k. task_id ((a # ts) ! j) \<noteq> i"
      using False k(3) by (auto simp: nth_Cons split: nat.splits)
    with False k show ?thesis by (intro exI [of _ "Suc k"]) simp
  qed
qed

lemma broadcastStats_stores:
  "db_tasks (broadcastStats w) = db_tasks w \<and> db_projects (broadcastStats w) = db_projects w
   \<and> db_users (broadcastStats w) = db_users w"
  by (simp add: broadcastStats_def issue_def Let_def)

lemma broadcastStats_clients:
  "wss_clients (broadcastStats w) =
     map (deliver (StatsMessage (computeStats (db_projects w) (db_tasks w)))) (wss_clients w)"
  by (simp add: broadcastStats_def issue_def Let_def)

lemma toggle_found:
  assumes "cast param = Some i" and "find (\<lambda>t. task_id t = i) (db_tasks w) = Some t"
  shows "post_tasks_toggle cast param w =
           (Redirect ''back'',
            broadcastStats (issue [Task_save i]
              (issue [Task_findById i] w
                 \<lparr>db_tasks := set_completed i (\<not> completed t) (db_tasks w)\<rparr>)))"
  using assms find_task_id [OF assms(2)]
  by (simp add: post_tasks_toggle_def issue_def Let_def)

lemma toggle_found_tasks:
  assumes "cast param = Some i" and "find (\<lambda>t. task_id t = i) (db_tasks w) = Some t"
  shows "db_tasks (snd (post_tasks_toggle cast param w))
           = set_completed i (\<not> completed t) (db_tasks w)"
  by (simp add: toggle_found [of cast param i w t, OF assms] broadcastStats_stores issue_def)

text \<open>
  C6. For a task that exists, two successive toggles return it, and the whole task
  collection, to the original state; after the first toggle its \<open>completed\<close> is negated.
  Both requests are answered by the redirect.
\<close>

theorem toggle_twice_restores:
  assumes "cast param = Some i" and "find (\<lambda>t. task_id t = i) (db_tasks w) = Some t"
  shows "find (\<lambda>t. task_id t = i) (db_tasks (snd (post_tasks_toggle cast param w)))
           = Some (t\<lparr>completed := \<not> completed t\<rparr>)
       \<and> db_tasks (snd (post_tasks_toggle cast param (snd (post_tasks_toggle cast param w))))
           = db_tasks w
       \<and> find (\<lambda>t. task_id t = i)
            (db_tasks (snd (post_tasks_toggle cast param (snd (post_tasks_toggle cast param w)))))
           = Some t
       \<and> fst (post_tasks_toggle cast param w) = Redirect ''back''
       \<and> fst (post_tasks_toggle cast param (snd (post_tasks_toggle cast param w))) = Redirect ''back''"
proof -
  let ?w1 = "snd (post_tasks_toggle cast param w)"
  let ?t1 = "t\<lparr>completed := \<not> completed t\<rparr>"
  have t1: "db_tasks ?w1 = set_completed i (\<not> completed t) (db_tasks w)"
    by (rule toggle_found_tasks [of cast param i w t, OF assms])
  have f1: "find (\<lambda>t. task_id t = i) (db_tasks ?w1) = Some ?t1"
    unfolding t1 by (rule find_set_completed [OF assms(2)])
  have "db_tasks (snd (post_tasks_toggle cast param ?w1)) =
          set_completed i (\<not> completed ?t1) (db_tasks ?w1)"
    by (rule toggle_found_tasks [of cast param i ?w1 ?t1, OF assms(1) f1])
  also have "\<dots> = db_tasks w"
    unfolding t1 using set_completed_twice [OF assms(2)] by simp
  finally have t2: "db_tasks (snd (post_tasks_toggle cast param ?w1)) = db_tasks w" .
  have r1: "fst (post_tasks_toggle cast param w) = Redirect ''back''"
    by (simp add: toggle_found [of cast param i w t, OF assms])
  have r2: "fst (post_tasks_toggle cast param ?w1) = Redirect ''back''"
    by (simp add: toggle_found [of cast param i ?w1 ?t1, OF assms(1) f1])
  show ?thesis
    using f1 t2 assms(2) r1 r2 by simp
qed

theorem toggle_twice_restores_witness:
  "cast_any ''t1'' = Some ''t1''
   \<and> find (\<lambda>t. task_id t = ''t1'') (db_tasks example_world)
       = Some \<lparr>task_id = ''t1'', task_title = ''write'', completed = False, projectId = ''p1''\<rparr>
   \<and> find (\<lambda>t. task_id t = ''t1'')
        (db_tasks (snd (post_tasks_toggle cast_any ''t1'' example_world)))
       = Some \<lparr>task_id = ''t1'', task_title = ''write'', completed = True, projectId = ''p1''\<rparr>
   \<and> db_tasks (snd (post_tasks_toggle cast_any ''t1''
                      (snd (post_tasks_toggle cast_any ''t1'' example_world))))
       = db_tasks example_world"
proof -
  have v: "cast_any ''t1'' = Some ''t1''" by (simp add: cast_any_def)
  have f: "find (\<lambda>t. task_id t = ''t1'') (db_tasks example_world)
       = Some \<lparr>task_id = ''t1'', task_title = ''write'', completed = False, projectId = ''p1''\<rparr>"
    by (simp add: example_world_def task_write_def task_test_def)
  show ?thesis
    using v f toggle_twice_restores [of cast_any "''t1''" "''t1''" example_world, OF v f] by simp
qed

text \<open>
  C10. For a task that exists, the toggle changes nothing but the \<open>completed\<close> field of
  that task: the users and the projects are as before, and the task collection is the old
  one with the document at one position \<open>k\<close> (the task) replaced by the task with
  \<open>completed\<close> negated; its id, title and project reference are the old ones, and the
  task at every other position is unchanged.
\<close>

theorem toggle_changes_only_completed:
  assumes "cast param = Some i" and "find (\<lambda>t. task_id t = i) (db_tasks w) = Some t"
  shows "db_users (snd (post_tasks_toggle cast param w)) = db_users w
       \<and> db_projects (snd (post_tasks_toggle cast param w)) = db_projects w
       \<and> (\<exists>k < length (db_tasks w).
             db_tasks w ! k = t
           \<and> db_tasks (snd (post_tasks_toggle cast param w))
               = (db_tasks w)[k := t\<lparr>completed := \<not> completed t\<rparr>]
           \<and> task_title (db_tasks (snd (post_tasks_toggle cast param w)) ! k) = task_title t
           \<and> projectId (db_tasks (snd (post_tasks_toggle cast param w)) ! k) = projectId t
           \<and> task_id (db_tasks (snd (post_tasks_toggle cast param w)) ! k) = task_id t
           \<and> completed (db_tasks (snd (post_tasks_toggle cast param w)) ! k) = (\<not> completed t)
           \<and> (\<forall>j < length (db_tasks w). j \<noteq> k \<longrightarrow>
                 db_tasks (snd (post_tasks_toggle cast param w)) ! j = db_tasks w ! j))"
proof -
  obtain k where k: "k < length (db_tasks w)" "db_tasks w ! k = t"
    "set_completed i (\<not> completed t) (db_tasks w)
       = (db_tasks w)[k := t\<lparr>completed := \<not> completed t\<rparr>]"
    using set_completed_update [OF assms(2)] by blast
  have "db_tasks (snd (post_tasks_toggle cast param w))
          = (db_tasks w)[k := t\<lparr>completed := \<not> completed t\<rparr>]"
    using toggle_found_tasks [of cast param i w t, OF assms] k(3) by simp
  with k(1,2) show ?thesis
    by (auto simp: toggle_found [of cast param i w t, OF assms] broadcastStats_stores issue_def)
qed

theorem toggle_changes_only_completed_witness:
  "cast_any ''t2'' = Some ''t2''
   \<and> find (\<lambda>t. task_id t = ''t2'') (db_tasks example_world)
       = Some \<lparr>task_id = ''t2'', task_title = ''test'', completed = True, projectId = ''p1''\<rparr>
   \<and> db_users (snd (post_tasks_toggle cast_any ''t2'' example_world)) = db_users example_world
   \<and> db_projects (snd (post_tasks_toggle cast_any ''t2'' example_world))
       = db_projects example_world
   \<and> db_tasks (snd (post_tasks_toggle cast_any ''t2'' example_world))
       = [\<lparr>task_id = ''t1'', task_title = ''write'', completed = False, projectId = ''p1''\<rparr>,
          \<lparr>task_id = ''t2'', task_title = ''test'', completed = False, projectId = ''p1''\<rparr>]"
proof -
  have v: "cast_any ''t2'' = Some ''t2''" by (simp add: cast_any_def)
  have f: "find (\<lambda>t. task_id t = ''t2'') (db_tasks example_world)
       = Some \<lparr>task_id = ''t2'', task_title = ''test'', completed = True, projectId = ''p1''\<rparr>"
    by (simp add: example_world_def task_write_def task_test_def)
  obtain k where k: "k < length (db_tasks example_world)"
    "db_tasks example_world ! k
       = \<lparr>task_id = ''t2'', task_title = ''test'', completed = True, projectId = ''p1''\<rparr>"
    "db_tasks (snd (post_tasks_toggle cast_any ''t2'' example_world))
       = (db_tasks example_world)
           [k := \<lparr>task_id = ''t2'', task_title = ''test'', completed = False, projectId = ''p1''\<rparr>]"
    using toggle_changes_only_completed [of cast_any "''t2''" "''t2''" example_world, OF v f]
    by auto
  have "k = 1"
    using k(1,2) by (cases k) (auto simp: example_world_def task_write_def task_test_def)
  with k(3) have "db_tasks (snd (post_tasks_toggle cast_any ''t2'' example_world))
       = [\<lparr>task_id = ''t1'', task_title = ''write'', completed = False, projectId = ''p1''\<rparr>,
          \<lparr>task_id = ''t2'', task_title = ''test'', completed = False, projectId = ''p1''\<rparr>]"
    by (simp add: example_world_def task_write_def task_test_def)
  with v f toggle_changes_only_completed [of cast_any "''t2''" "''t2''" example_world, OF v f]
  show ?thesis by simp
qed

section \<open>The stats payload: per-project progress\<close>

text \<open>
  C4. Whatever the stores hold, the per-project entries of the stats payload are the
  projects formatted one by one, and the progress of each entry is the stored progress of
  its project; the task collection has no influence on them.
\<close>

theorem stats_progress_is_stored_progress:
  "projects (computeStats ps ts) = map format_project ps
   \<and> map fp_progress (projects (computeStats ps ts)) = map progress ps
   \<and> (\<forall>ts'. projects (computeStats ps ts') = projects (computeStats ps ts))"
  by (simp add: computeStats_def format_project_def or_zero_def comp_def)

section \<open>Registration and login\<close>

lemma find_email_present:
  "e \<in> email ` set us \<Longrightarrow> \<exists>u. find (\<lambda>u. email u = e) us = Some u"
  by (induction us) auto

text \<open>
  C5. A registration request whose email is the email of a stored user leaves the user
  collection unchanged and re-renders the registration form with an inline message; when
  the request passes the field checks (name, email and password present, the two passwords
  equal) the message is the one of the duplicate identity.
\<close>

theorem register_existing_email:
  assumes "reg_email body = Some e" and "e \<in> email ` set (db_users w)"
  shows "db_users (snd (post_register hash sign new_id body w)) = db_users w
       \<and> (\<exists>msg. fst (post_register hash sign new_id body w) = render_register msg)
       \<and> (truthy (reg_name body) \<and> truthy (reg_email body) \<and> truthy (reg_password body)
            \<and> reg_password body = reg_confirmPassword body
          \<longrightarrow> fst (post_register hash sign new_id body w)
                = render_register ''Email already registered.'')"
proof -
  obtain u where u: "find (\<lambda>u. email u = e) (db_users w) = Some u"
    using find_email_present [OF assms(2)] by blast
  show ?thesis
    using assms(1) u
    by (auto simp: post_register_def issue_def truthy_def split: option.splits)
qed

theorem register_existing_email_witness:
  "reg_email dup_body = Some ''ada@example.com''
   \<and> ''ada@example.com'' \<in> email ` set (db_users example_world)
   \<and> truthy (reg_name dup_body) \<and> truthy (reg_email dup_body) \<and> truthy (reg_password dup_body)
   \<and> reg_password dup_body = reg_confirmPassword dup_body
   \<and> db_users (snd (post_register example_hash example_sign ''u2'' dup_body example_world))
       = db_users example_world
   \<and> fst (post_register example_hash example_sign ''u2'' dup_body example_world)
       = render_register ''Email already registered.''"
proof -
  have a: "reg_email dup_body = Some ''ada@example.com''" by (simp add: dup_body_def)
  have b: "''ada@example.com'' \<in> email ` set (db_users example_world)"
    by (simp add: example_world_def)
  have c: "truthy (reg_name dup_body) \<and> truthy (reg_email dup_body)
      \<and> truthy (reg_password dup_body) \<and> reg_password dup_body = reg_confirmPassword dup_body"
    by (simp add: dup_body_def truthy_def)
  show ?thesis
    using a b c register_existing_email [of dup_body "''ada@example.com''" example_world
        example_hash example_sign "''u2''", OF a b]
    by (simp add: dup_body_def truthy_def)
qed

text \<open>
  C9. A registration request whose \<open>password\<close> and \<open>confirmPassword\<close> differ returns with
  the state untouched (no store call is issued, no user is created) and re-renders the
  registration form with an inline message; when name, email and password are all
  present, the message is that the passwords do not match.
\<close>

theorem register_password_mismatch:
  assumes "reg_password body \<noteq> reg_confirmPassword body"
  shows "snd (post_register hash sign new_id body w) = w
       \<and> (\<exists>msg. fst (post_register hash sign new_id body w) = render_register msg)
       \<and> (truthy (reg_name body) \<and> truthy (reg_email body) \<and> truthy (reg_password body)
          \<longrightarrow> fst (post_register hash sign new_id body w)
                = render_register ''Passwords do not match.'')"
  using assms by (auto simp: post_register_def)

theorem register_password_mismatch_witness:
  "reg_password mismatch_body \<noteq> reg_confirmPassword mismatch_body
   \<and> truthy (reg_name mismatch_body) \<and> truthy (reg_email mismatch_body)
   \<and> truthy (reg_password mismatch_body)
   \<and> post_register example_hash example_sign ''u2'' mismatch_body example_world
       = (render_register ''Passwords do not match.'', example_world)"
proof -
  have a: "reg_password mismatch_body \<noteq> reg_confirmPassword mismatch_body"
    by (simp add: mismatch_body_def)
  show ?thesis
    using a register_password_mismatch [of mismatch_body example_hash example_sign "''u2''"
        example_world, OF a]
    by (simp add: mismatch_body_def truthy_def prod_eq_iff)
qed

text \<open>
  C8. Take two login attempts, in any two states: one whose email matches no user, one
  whose email matches a user and whose password the comparison reports as wrong. Both are
  answered by the same response, the login form with the one generic message.
\<close>

theorem login_failures_alike:
  assumes "findOne_by_email no_email (login_email b1) (db_users w1) = None"
    and "findOne_by_email no_email (login_email b2) (db_users w2) = Some u"
    and "compare (login_password b2) (passwordHash u) = Inr False"
  shows "fst (post_login no_email compare sign b1 w1) = fst (post_login no_email compare sign b2 w2)
       \<and> fst (post_login no_email compare sign b1 w1)
           = render_login ''Invalid email or password.''"
  using assms by (simp add: post_login_def issue_def)

theorem login_failures_alike_witness:
  "findOne_by_email first_user (login_email unknown_login) (db_users example_world) = None
   \<and> findOne_by_email first_user (login_email wrong_password_login) (db_users example_world)
       = Some \<lparr>user_id = ''u1'', name = ''Ada'', email = ''ada@example.com'',
               passwordHash = example_hash ''secret''\<rparr>
   \<and> example_compare (login_password wrong_password_login) (example_hash ''secret'') = Inr False
   \<and> fst (post_login first_user example_compare example_sign unknown_login example_world)
       = fst (post_login first_user example_compare example_sign wrong_password_login
                example_world)
   \<and> fst (post_login first_user example_compare example_sign unknown_login example_world)
       = Render ''login'' (Some ''auth-layout'') (Some ''Invalid email or password.'')"
proof -
  let ?u = "\<lparr>user_id = ''u1'', name = ''Ada'', email = ''ada@example.com'',
               passwordHash = example_hash ''secret''\<rparr>"
  have a: "findOne_by_email first_user (login_email unknown_login) (db_users example_world)
      = None"
    by (simp add: unknown_login_def example_world_def findOne_by_email_def)
  have b: "findOne_by_email first_user (login_email wrong_password_login)
      (db_users example_world) = Some ?u"
    by (simp add: wrong_password_login_def example_world_def findOne_by_email_def)
  have c: "example_compare (login_password wrong_password_login) (passwordHash ?u) = Inr False"
    by (simp add: wrong_password_login_def example_compare_def example_hash_def)
  show ?thesis
    using a b c login_failures_alike [of first_user unknown_login example_world
        wrong_password_login example_world ?u example_compare example_sign, OF a b c]
    by (auto simp: render_login_def)
qed

section \<open>Broadcast on mutation\<close>

text \<open>
  C7. Each of the three mutating actions, when it mutates (a project is created, a task is
  created, a task is toggled), computes one stats snapshot from the stores as they are
  after the mutation and appends that same message to every connection whose
  \<open>readyState\<close> is 1 (open); a connection in another state is left as it is.
\<close>

theorem mutation_broadcasts_snapshot:
  "(truthy (js_or (body_title b) (body_name b)) \<longrightarrow>
      fst (post_projects new_id b w) = Redirect ''/projects''
      \<and> db_projects (snd (post_projects new_id b w)) \<noteq> db_projects w
      \<and> snapshot_sent w (snd (post_projects new_id b w)))
   \<and> (truthy f \<and> cast p_param = Some pid \<longrightarrow>
      fst (post_project_tasks cast new_id p_param f w) = Redirect (''/projects/'' @ p_param)
      \<and> db_tasks (snd (post_project_tasks cast new_id p_param f w)) \<noteq> db_tasks w
      \<and> snapshot_sent w (snd (post_project_tasks cast new_id p_param f w)))
   \<and> (cast param = Some i \<and> find (\<lambda>t. task_id t = i) (db_tasks w) = Some t \<longrightarrow>
      fst (post_tasks_toggle cast param w) = Redirect ''back''
      \<and> db_tasks (snd (post_tasks_toggle cast param w)) \<noteq> db_tasks w
      \<and> snapshot_sent w (snd (post_tasks_toggle cast param w)))"
proof (intro conjI impI)
  assume "truthy (js_or (body_title b) (body_name b))"
  then obtain s where s: "js_or (body_title b) (body_name b) = Some s" "s \<noteq> []"
    by (auto simp: truthy_def split: option.splits)
  then show "fst (post_projects new_id b w) = Redirect ''/projects''"
    and "db_projects (snd (post_projects new_id b w)) \<noteq> db_projects w"
    and "snapshot_sent w (snd (post_projects new_id b w))"
    by (simp_all add: post_projects_def Let_def snapshot_sent_def broadcastStats_stores
        broadcastStats_clients issue_def deliver_def)
next
  assume "truthy f \<and> cast p_param = Some pid"
  then obtain s where s: "f = Some s" "s \<noteq> []" "cast p_param = Some pid"
    by (auto simp: truthy_def split: option.splits)
  then show "fst (post_project_tasks cast new_id p_param f w) = Redirect (''/projects/'' @ p_param)"
    and "db_tasks (snd (post_project_tasks cast new_id p_param f w)) \<noteq> db_tasks w"
    and "snapshot_sent w (snd (post_project_tasks cast new_id p_param f w))"
    by (simp_all add: post_project_tasks_def Let_def snapshot_sent_def broadcastStats_stores
        broadcastStats_clients issue_def deliver_def)
next
  assume "cast param = Some i \<and> find (\<lambda>t. task_id t = i) (db_tasks w) = Some t"
  then have v: "cast param = Some i" and f: "find (\<lambda>t. task_id t = i) (db_tasks w) = Some t"
    by simp_all
  obtain k where k: "k < length (db_tasks w)" "db_tasks w ! k = t"
    "set_completed i (\<not> completed t) (db_tasks w)
       = (db_tasks w)[k := t\<lparr>completed := \<not> completed t\<rparr>]"
    using set_completed_update [OF f] by blast
  have ne: "set_completed i (\<not> completed t) (db_tasks w) \<noteq> db_tasks w"
  proof
    assume "set_completed i (\<not> completed t) (db_tasks w) = db_tasks w"
    then have "(db_tasks w)[k := t\<lparr>completed := \<not> completed t\<rparr>] ! k = db_tasks w ! k"
      using k(3) by simp
    with k(1,2) have "t\<lparr>completed := \<not> completed t\<rparr> = t" by simp
    then have "completed (t\<lparr>completed := \<not> completed t\<rparr>) = completed t" by simp
    then show False by simp
  qed
  then show "fst (post_tasks_toggle cast param w) = Redirect ''back''"
    and "db_tasks (snd (post_tasks_toggle cast param w)) \<noteq> db_tasks w"
    and "snapshot_sent w (snd (post_tasks_toggle cast param w))"
    by (simp_all add: toggle_found [of cast param i w t, OF v f] Let_def snapshot_sent_def
        broadcastStats_stores broadcastStats_clients issue_def deliver_def)
qed

theorem mutation_broadcasts_snapshot_witness:
  "truthy (js_or (body_title site_body) (body_name site_body))
   \<and> wss_clients (snd (post_projects ''n1'' site_body example_world))
       = [\<lparr>readyState = 1,
           sent = [StatsMessage (computeStats
                     [project_site, \<lparr>project_id = ''n1'', title = ''Shop'', description = None, progress = 0\<rparr>]
                     [task_write, task_test])]\<rparr>,
          \<lparr>readyState = 3, sent = []\<rparr>]
   \<and> truthy (Some ''deploy'') \<and> cast_any ''p1'' = Some ''p1''
   \<and> wss_clients (snd (post_project_tasks cast_any ''n1'' ''p1'' (Some ''deploy'') example_world))
       = [\<lparr>readyState = 1,
           sent = [StatsMessage (computeStats [project_site]
                     [task_write, task_test, \<lparr>task_id = ''n1'', task_title = ''deploy'', completed = False,
                               projectId = ''p1''\<rparr>])]\<rparr>,
          \<lparr>readyState = 3, sent = []\<rparr>]
   \<and> cast_any ''t1'' = Some ''t1''
   \<and> find (\<lambda>t. task_id t = ''t1'') (db_tasks example_world) = Some task_write
   \<and> wss_clients (snd (post_tasks_toggle cast_any ''t1'' example_world))
       = [\<lparr>readyState = 1,
           sent = [StatsMessage (computeStats [project_site] [task_write\<lparr>completed := True\<rparr>, task_test])]\<rparr>,
          \<lparr>readyState = 3, sent = []\<rparr>]"
proof -
  have a: "truthy (js_or (body_title site_body) (body_name site_body))"
    by (simp add: site_body_def js_or_def truthy_def)
  have b: "truthy (Some ''deploy'') \<and> cast_any ''p1'' = Some ''p1''"
    by (simp add: truthy_def cast_any_def)
  have c: "cast_any ''t1'' = Some ''t1''
      \<and> find (\<lambda>t. task_id t = ''t1'') (db_tasks example_world) = Some task_write"
    by (simp add: cast_any_def example_world_def task_write_def)
  have p: "db_projects example_world = [project_site]" "db_tasks example_world = [task_write, task_test]"
    "wss_clients example_world = [\<lparr>readyState = 1, sent = []\<rparr>, \<lparr>readyState = 3, sent = []\<rparr>]"
    by (simp_all add: example_world_def project_site_def task_write_def task_test_def)
  have d: "db_projects (snd (post_projects ''n1'' site_body example_world))
       = [project_site, \<lparr>project_id = ''n1'', title = ''Shop'', description = None, progress = 0\<rparr>]
     \<and> db_tasks (snd (post_projects ''n1'' site_body example_world)) = [task_write, task_test]"
    by (simp add: post_projects_def site_body_def js_or_def truthy_def broadcastStats_stores
        issue_def p)
  have e: "db_projects (snd (post_project_tasks cast_any ''n1'' ''p1'' (Some ''deploy'') example_world)) = [project_site]
     \<and> db_tasks (snd (post_project_tasks cast_any ''n1'' ''p1'' (Some ''deploy'') example_world))
       = [task_write, task_test, \<lparr>task_id = ''n1'', task_title = ''deploy'', completed = False, projectId = ''p1''\<rparr>]"
    by (simp add: post_project_tasks_def cast_any_def broadcastStats_stores issue_def p)
  have g: "db_projects (snd (post_tasks_toggle cast_any ''t1'' example_world)) = [project_site]
     \<and> db_tasks (snd (post_tasks_toggle cast_any ''t1'' example_world)) = [task_write\<lparr>completed := True\<rparr>, task_test]"
    by (simp add: post_tasks_toggle_def cast_any_def broadcastStats_stores issue_def p
        task_write_def task_test_def)
  show ?thesis
    using a b c
      mutation_broadcasts_snapshot [of site_body "''n1''" example_world "Some ''deploy''"
        cast_any "''p1''" "''p1''" "''t1''" "''t1''" task_write]
    by (simp add: snapshot_sent_def d e g p)
qed

section \<open>Requests with a required field missing\<close>

text \<open>
  C3, as amended. A project-creation request in which \<open>title\<close> and \<open>name\<close> are both missing
  or empty re-renders the form with an inline message and leaves the state as it is (no
  store call). A task-creation request whose \<open>title\<close> is missing or empty also leaves the
  state as it is, and is answered by the generic error view: the handler throws, and the
  error goes to the error handler.
\<close>

theorem missing_title_outcomes:
  "(\<not> truthy (js_or (body_title b) (body_name b)) \<longrightarrow>
      post_projects new_id b w
        = (Render ''new-project'' None (Some ''Project name is required.''), w))
   \<and> (\<not> truthy f \<longrightarrow>
      post_project_tasks cast new_id param f w
        = (ServerError (JsError ''Task title required''), w))"
  by (auto simp: post_projects_def post_project_tasks_def truthy_def split: option.splits)

theorem missing_title_outcomes_witness:
  "\<not> truthy (js_or (body_title no_title_body) (body_name no_title_body))
   \<and> post_projects ''n1'' no_title_body example_world
       = (Render ''new-project'' None (Some ''Project name is required.''), example_world)
   \<and> \<not> truthy (Some [])
   \<and> post_project_tasks cast_any ''n1'' ''p1'' (Some []) example_world
       = (ServerError (JsError ''Task title required''), example_world)"
  using missing_title_outcomes [of no_title_body "''n1''" example_world "Some []" cast_any
      "''p1''"]
  by (simp add: no_title_body_def truthy_def js_or_def)

text \<open>
  The claim as first stated fails for task creation: with the title missing the response
  is the generic error view, not a view with an inline message.
\<close>

theorem task_title_missing_counterexample:
  "fst (post_project_tasks cast_any ''t3'' ''p1'' None example_world)
     = ServerError (JsError ''Task title required'')
   \<and> \<not> is_inline_render (fst (post_project_tasks cast_any ''t3'' ''p1'' None example_world))
   \<and> is_server_error (fst (post_project_tasks cast_any ''t3'' ''p1'' None example_world))"
  by (simp add: post_project_tasks_def)

end
